theory Spec2Isabelle
  imports Main "HOL-Library.Multiset"
begin

section \<open>Strings, paths and the supported-extension table\<close>

text \<open>
  Go strings are byte sequences; a \<^typ>\<open>string\<close> is the list of those bytes.

  \<open>strings.ToLower\<close> has two paths. A string whose bytes are all below
  \<open>utf8.RuneSelf\<close> (\<open>0x80\<close>) is lower-cased byte by byte: \<open>A\<close> .. \<open>Z\<close> become
  \<open>a\<close> .. \<open>z\<close> and every other byte is kept. Any other string is handed to
  \<open>strings.Map(unicode.ToLower, s)\<close>, which decodes UTF-8 and maps every code point
  through the Unicode tables (so that U+0130 becomes \<open>i\<close>); that function of the
  standard library is the first argument of \<open>ToLower\<close>.
\<close>

definition lower_byte :: "char \<Rightarrow> char" where
  "lower_byte c =
     (case map_of (zip ''ABCDEFGHIJKLMNOPQRSTUVWXYZ'' ''abcdefghijklmnopqrstuvwxyz'') c of
        Some l \<Rightarrow> l
      | None \<Rightarrow> c)"

definition isASCII :: "char \<Rightarrow> bool" where
  "isASCII c = ((of_char c :: nat) < 128)"

definition ToLower :: "(string \<Rightarrow> string) \<Rightarrow> string \<Rightarrow> string" where
  "ToLower Map_unicode_ToLower s =
     (if list_all isASCII s then map lower_byte s else Map_unicode_ToLower s)"

definition IsPathSeparator :: "char \<Rightarrow> bool" where
  "IsPathSeparator c = (c = CHR ''/'')"

text \<open>
  \<open>filepath.Ext\<close>: scan from the last byte towards the first, stop at a separator,
  return the suffix that starts at the first dot met. The first argument is the part of
  the path not yet scanned, reversed; the second is the suffix already passed.
\<close>

fun ext_scan :: "string \<Rightarrow> string \<Rightarrow> string" where
  "ext_scan [] suffix = []"
| "ext_scan (c # cs) suffix =
     (if IsPathSeparator c then []
      else if c = CHR ''.'' then c # suffix
      else ext_scan cs (c # suffix))"

definition Ext :: "string \<Rightarrow> string" where
  "Ext path = ext_scan (rev path) []"

text \<open>
  \<open>filepath.Base\<close>: the empty path is \<open>.\<close>; trailing separators are stripped; the
  result is what follows the last separator, or \<open>/\<close> when nothing is left.
\<close>

definition Base :: "string \<Rightarrow> string" where
  "Base path =
     (if path = [] then ''.''
      else
        let stripped = rev (dropWhile IsPathSeparator (rev path));
            elem = rev (takeWhile (\<lambda>c. \<not> IsPathSeparator c) (rev stripped))
        in if elem = [] then ''/'' else elem)"

definition MaxFileSize :: nat where
  "MaxFileSize = 5 * 1024 * 1024"

text \<open>The map \<open>ValidExtensions\<close>; a key that is absent reads as \<open>false\<close>.\<close>

definition ValidExtensions :: "string \<Rightarrow> bool" where
  "ValidExtensions ext =
     (ext \<in> set [''.jpg'', ''.jpeg'', ''.png'', ''.gif'', ''.svg'', ''.webp'',
                  ''.bmp'', ''.pdf'', ''.txt'', ''.json'', ''.css'', ''.js'', ''.xml''])"

section \<open>Errors\<close>

text \<open>
  Every \<open>fmt.Errorf\<close> of the client package is one constructor, carrying the values
  the format string prints. The text of an error of the standard library that is wrapped
  with \<open>%w\<close> is carried as a string.
\<close>

datatype error =
    FileDoesNotExist string
  | FailedToAccessFile string
  | PathIsDirectory string
  | FileSizeExceeds nat nat
  | FileIsEmpty string
  | UnsupportedFileType string
  | FailedToCreateRequest string
  | RequestFailed string
  | FailedToReadResponse string
  | AuthenticationFailedHTTP int
  | AuthenticationFailedRedirect
  | FailedToFetchUploadPage int string
  | CouldNotObtainUploadToken
  | FailedToGetRequestToken error
  | FailedToOpenFile string
  | FailedToGetFileInfo string
  | FailedToWriteField string string
  | FailedToMarshal string string
  | FailedToCreatePart string string
  | FailedToCopyFileContent string
  | FailedToCloseWriter string
  | UploadFailedWithStatus int string
  | FailedToParseResponse string string
  | UploadFailed string
  | FailedToParseGraphQLResponse string
  | GraphQLError string
  | NoFileUrlInResponse

section \<open>The validator\<close>

text \<open>
  What \<open>os.Stat\<close> answers for a path: a \<open>FileInfo\<close> (of which the code reads
  \<open>IsDir()\<close> and \<open>Size()\<close>, a byte count), an error that \<open>os.IsNotExist\<close> recognises, or any
  other error (permission denied, a path component that is not a directory, ...).
  The first argument of \<open>ValidateFile\<close> is the Unicode path of \<open>strings.ToLower\<close>.
\<close>

datatype stat_result =
    FileInfo bool nat
  | ErrNotExist
  | ErrOther string

definition ValidateFile ::
    "(string \<Rightarrow> string) \<Rightarrow> (string \<Rightarrow> stat_result) \<Rightarrow> string \<Rightarrow> error option" where
  "ValidateFile Map_unicode_ToLower os_Stat filePath =
     (case os_Stat filePath of
        ErrNotExist \<Rightarrow> Some (FileDoesNotExist filePath)
      | ErrOther msg \<Rightarrow> Some (FailedToAccessFile msg)
      | FileInfo isDir sz \<Rightarrow>
          if isDir then Some (PathIsDirectory filePath)
          else if sz > MaxFileSize then Some (FileSizeExceeds sz MaxFileSize)
          else if sz = 0 then Some (FileIsEmpty filePath)
          else if \<not> ValidExtensions (ToLower Map_unicode_ToLower (Ext filePath))
            then Some (UnsupportedFileType (ToLower Map_unicode_ToLower (Ext filePath)))
          else None)"

text \<open>The five error kinds the validator's contract lists.\<close>

fun listed_validation_error :: "error \<Rightarrow> bool" where
  "listed_validation_error (FileDoesNotExist p) = True"
| "listed_validation_error (PathIsDirectory p) = True"
| "listed_validation_error (FileSizeExceeds n m) = True"
| "listed_validation_error (FileIsEmpty p) = True"
| "listed_validation_error (UnsupportedFileType e) = True"
| "listed_validation_error e = False"


section \<open>Error texts\<close>

text \<open>\<open>%d\<close> of \<open>fmt\<close>: a number in decimal.\<close>

function show_nat :: "nat \<Rightarrow> string" where
  "show_nat n =
     (if n < 10 then [''0123456789'' ! n]
      else show_nat (n div 10) @ [''0123456789'' ! (n mod 10)])"
  by pat_completeness auto
termination
  by (relation "measure id") auto

declare show_nat.simps [simp del]

definition show_int :: "int \<Rightarrow> string" where
  "show_int i = (if i < 0 then CHR ''-'' # show_nat (nat (- i)) else show_nat (nat i))"

definition please_login :: string where
  "please_login = ''Please run 'vtex login' and try again''"

text \<open>The method \<open>Error()\<close> of an error value: the text its format string prints.\<close>

fun error_string :: "error \<Rightarrow> string" where
  "error_string (FileDoesNotExist p) = ''file does not exist: '' @ p"
| "error_string (FailedToAccessFile m) = ''failed to access file: '' @ m"
| "error_string (PathIsDirectory p) = ''path is a directory, not a file: '' @ p"
| "error_string (FileSizeExceeds n m) =
     ''file size ('' @ show_nat n @ '' bytes) exceeds maximum allowed size (''
       @ show_nat m @ '' bytes / 5MB)''"
| "error_string (FileIsEmpty p) = ''file is empty: '' @ p"
| "error_string (UnsupportedFileType e) =
     ''unsupported file type: '' @ e
       @ '' (images: jpg, jpeg, png, gif, svg, webp, bmp; docs: pdf, txt, json, xml; web: css, js)''"
| "error_string (FailedToCreateRequest m) = ''failed to create request: '' @ m"
| "error_string (RequestFailed m) = ''request failed: '' @ m"
| "error_string (FailedToReadResponse m) = ''failed to read response: '' @ m"
| "error_string (AuthenticationFailedHTTP n) =
     ''authentication failed (HTTP '' @ show_int n
       @ ''): your VTEX session has expired. '' @ please_login"
| "error_string AuthenticationFailedRedirect =
     ''authentication failed (redirect): your VTEX session has expired. '' @ please_login"
| "error_string (FailedToFetchUploadPage n b) =
     ''failed to fetch upload page with status '' @ show_int n @ '': '' @ b"
| "error_string CouldNotObtainUploadToken =
     ''authentication failed: could not obtain upload token. Your VTEX session may have expired. ''
       @ please_login"
| "error_string (FailedToGetRequestToken e) = ''failed to get requestToken: '' @ error_string e"
| "error_string (FailedToOpenFile m) = ''failed to open file: '' @ m"
| "error_string (FailedToGetFileInfo m) = ''failed to get file info: '' @ m"
| "error_string (FailedToWriteField f m) = ''failed to write '' @ f @ '' field: '' @ m"
| "error_string (FailedToMarshal w m) = ''failed to marshal '' @ w @ '': '' @ m"
| "error_string (FailedToCreatePart w m) = ''failed to create '' @ w @ '': '' @ m"
| "error_string (FailedToCopyFileContent m) = ''failed to copy file content: '' @ m"
| "error_string (FailedToCloseWriter m) = ''failed to close multipart writer: '' @ m"
| "error_string (UploadFailedWithStatus n b) =
     ''upload failed with status '' @ show_int n @ '': '' @ b"
| "error_string (FailedToParseResponse m b) =
     ''failed to parse response: '' @ m @ '' (body: '' @ b @ '')''"
| "error_string (UploadFailed m) = ''upload failed: '' @ m"
| "error_string (FailedToParseGraphQLResponse m) = ''failed to parse GraphQL response: '' @ m"
| "error_string (GraphQLError m) = ''GraphQL error: '' @ m"
| "error_string NoFileUrlInResponse = ''no fileUrl in response''"

section \<open>URL path escaping\<close>

text \<open>
  \<open>url.PathEscape\<close> escapes a string for use as one path segment. Letters, digits and
  \<open>- _ . ~\<close> are kept; of the reserved characters \<open>$ & + , / : ; = ? @\<close> the four
  \<open>/ ; , ?\<close> are escaped in a path segment; every other byte is escaped. An escaped
  byte is \<open>%\<close> and its two upper-case hexadecimal digits; only query escaping writes a
  space as \<open>+\<close>.
\<close>

definition shouldEscape :: "char \<Rightarrow> bool" where
  "shouldEscape c =
     (if c \<in> set ''abcdefghijklmnopqrstuvwxyzABCDEFGHIJKLMNOPQRSTUVWXYZ0123456789'' then False
      else if c \<in> set ''-_.~'' then False
      else if c \<in> set ''$&+,/:;=?@'' then c \<in> set ''/;,?''
      else True)"

definition upperhex :: string where
  "upperhex = ''0123456789ABCDEF''"

definition escape_byte :: "char \<Rightarrow> string" where
  "escape_byte c =
     [CHR ''%'', upperhex ! ((of_char c :: nat) div 16), upperhex ! ((of_char c :: nat) mod 16)]"

definition PathEscape :: "string \<Rightarrow> string" where
  "PathEscape s = concat (map (\<lambda>c. if shouldEscape c then escape_byte c else [c]) s)"

section \<open>The operating system and the network, per call\<close>

text \<open>
  What one HTTP exchange gives the caller: \<open>http.NewRequest\<close> fails, \<open>httpClient.Do\<close>
  fails, reading the body fails, or a response with a status code and a body arrives.
\<close>

datatype http_result =
    NewRequestErr string
  | DoErr string
  | ReadAllErr string
  | Response int string

text \<open>
  The three patterns \<open>getRequestToken\<close> tries, in this order: the attribute \<open>id\<close>
  followed by \<open>value\<close>, \<open>value\<close> followed by \<open>id\<close>, and any \<open>value\<close> attribute
  after the name \<open>fileUploadRequestToken\<close> within one tag.
\<close>

datatype token_pattern = IdThenValue | ValueThenId | AnyValueInTag

record FilePickerUploadResponse =
  FileNameInserted :: string
  Mensagem :: string

record GraphQLErrorItem =
  Message :: string
  ErrorPath :: "string list"

record GraphQLUploadResult =
  Data_UploadFile_FileURL :: string
  Data_UploadFile_MimeType :: string
  Data_UploadFile_Encoding :: string
  Errors :: "GraphQLErrorItem list"

text \<open>
  The answers of the standard library and of the outside world to one call of
  \<open>UploadFile\<close>. A step that can fail answers with the text of its error.
\<close>

record io_env =
  strings_Map_ToLower :: "string \<Rightarrow> string"
  os_Stat :: "string \<Rightarrow> stat_result"
  os_Open :: "string \<Rightarrow> string option"
  file_Stat :: "string \<Rightarrow> string + nat"
  http_token :: http_result
  regexp_FindSubmatch :: "token_pattern \<Rightarrow> string \<Rightarrow> string list"
  http_upload :: http_result
  json_Unmarshal_FilePicker :: "string \<Rightarrow> string + FilePickerUploadResponse"
  json_Unmarshal_GraphQL :: "string \<Rightarrow> string + GraphQLUploadResult"
  json_Marshal_operations :: "string + string"
  json_Marshal_fileMap :: "string + string"
  writer_WriteField :: "string \<Rightarrow> string \<Rightarrow> string option"
  writer_CreatePart :: "string option"
  io_Copy :: "string option"
  writer_Close :: "string option"
  time_Now :: int

section \<open>The audit log\<close>

text \<open>
  One entry of the log. \<open>Timestamp\<close> is a \<open>time.Time\<close>, modelled as the distance
  from the zero time (the value for which \<open>IsZero()\<close> holds) in nanoseconds.
  \<open>ErrorText\<close> is the field \<open>Error\<close> of the Go struct.
\<close>

record UploadLogEntry =
  Timestamp :: int
  File :: string
  Path :: string
  Size :: nat
  Method :: string
  Account :: string
  Workspace :: string
  Status :: string
  URL :: string
  ErrorText :: string

text \<open>
  What one call of \<open>LogUpload\<close> meets: \<open>xdg.StateFile\<close> and \<open>os.OpenFile\<close> may
  fail, \<open>json.Marshal\<close> gives the bytes of an entry or fails, and \<open>file.Write\<close> either
  writes all the bytes or fails after writing some of them.
\<close>

record log_env =
  xdg_StateFile :: "string option"
  os_OpenFile :: "string option"
  log_time_Now :: int
  json_Marshal :: "UploadLogEntry \<Rightarrow> string + string"
  file_Write :: "string \<Rightarrow> (nat \<times> string) option"

definition newline :: char where
  "newline = CHR 0x0A"

text \<open>
  The log file is \<open>None\<close> while it does not exist and \<open>Some\<close> of its bytes once it
  does. \<open>LogUpload\<close> returns its error and the file as it leaves it. The file is opened
  with \<open>O_APPEND|O_CREATE\<close>, so it exists from then on.
\<close>

definition LogUpload ::
    "log_env \<Rightarrow> UploadLogEntry \<Rightarrow> string option \<Rightarrow> string option \<times> string option" where
  "LogUpload lenv entry logfile =
     (case xdg_StateFile lenv of
        Some err \<Rightarrow> (Some err, logfile)
      | None \<Rightarrow>
          (case os_OpenFile lenv of
             Some err \<Rightarrow> (Some err, logfile)
           | None \<Rightarrow>
               let content = (case logfile of None \<Rightarrow> [] | Some bytes \<Rightarrow> bytes);
                   entry' = (if Timestamp entry = 0
                             then entry\<lparr>Timestamp := log_time_Now lenv\<rparr> else entry)
               in (case json_Marshal lenv entry' of
                     Inl err \<Rightarrow> (Some err, Some content)
                   | Inr data \<Rightarrow>
                       (case file_Write lenv (data @ [newline]) of
                          None \<Rightarrow> (None, Some (content @ data @ [newline]))
                        | Some (n, err) \<Rightarrow>
                            (Some err, Some (content @ take n (data @ [newline])))))))"

text \<open>
  \<open>bufio.Scanner\<close> with the split function \<open>ScanLines\<close>: the input is cut at every
  newline, a last line without a newline counts when it is not empty, and one trailing
  carriage return is dropped from a line. The scanner's buffer holds at most
  \<open>MaxScanTokenSize\<close> bytes: a line of that many bytes or more ends the scan with
  \<open>ErrTooLong\<close>.
\<close>

fun split_lines :: "string \<Rightarrow> string list" where
  "split_lines [] = []"
| "split_lines (c # cs) =
     (if c = newline then [] # split_lines cs
      else (case split_lines cs of [] \<Rightarrow> [[c]] | l # ls \<Rightarrow> (c # l) # ls))"

definition dropCR :: "string \<Rightarrow> string" where
  "dropCR data = (if data \<noteq> [] \<and> last data = CHR 0x0D then butlast data else data)"

definition MaxScanTokenSize :: nat where
  "MaxScanTokenSize = 64 * 1024"

datatype log_error = LibraryError string | ErrTooLong

record read_env =
  os_Open_log :: "string option"
  json_Unmarshal :: "string \<Rightarrow> UploadLogEntry option"

text \<open>
  The loop of \<open>ReadLogs\<close> over the lines still to scan, with the entries collected so
  far: a line that does not parse is skipped; when the scanner stops, the entries and the
  scanner's error are returned.
\<close>

fun scan_loop ::
    "(string \<Rightarrow> UploadLogEntry option) \<Rightarrow> string list \<Rightarrow> UploadLogEntry list
      \<Rightarrow> UploadLogEntry list \<times> log_error option" where
  "scan_loop unmarshal [] entries = (entries, None)"
| "scan_loop unmarshal (l # ls) entries =
     (if MaxScanTokenSize \<le> length l then (entries, Some ErrTooLong)
      else (case unmarshal (dropCR l) of
              None \<Rightarrow> scan_loop unmarshal ls entries
            | Some entry \<Rightarrow> scan_loop unmarshal ls (entries @ [entry])))"

definition ReadLogs :: "read_env \<Rightarrow> string option \<Rightarrow> UploadLogEntry list \<times> log_error option" where
  "ReadLogs renv logfile =
     (case logfile of
        None \<Rightarrow> ([], None)
      | Some content \<Rightarrow>
          (case os_Open_log renv of
             Some err \<Rightarrow> ([], Some (LibraryError err))
           | None \<Rightarrow> scan_loop (json_Unmarshal renv) (split_lines content) []))"

section \<open>The two upload clients\<close>

text \<open>
  Both client structs hold the account and the workspace; the FilePicker client also
  holds the request token it fetched last.
\<close>

record GraphQLClient =
  account :: string
  workspace :: string

record CMSFilePickerClient = GraphQLClient +
  requestToken :: string


definition NewCMSFilePickerClient :: "string \<Rightarrow> string \<Rightarrow> CMSFilePickerClient" where
  "NewCMSFilePickerClient acc ws = \<lparr>account = acc, workspace = ws, requestToken = []\<rparr>"

record UploadResult =
  FileName :: string
  FileURL :: string
  Success :: bool
  Error :: "error option"

definition getRequestToken :: "CMSFilePickerClient \<Rightarrow> io_env \<Rightarrow> error + CMSFilePickerClient" where
  "getRequestToken c env =
     (case http_token env of
        NewRequestErr err \<Rightarrow> Inl (FailedToCreateRequest err)
      | DoErr err \<Rightarrow> Inl (RequestFailed err)
      | ReadAllErr err \<Rightarrow> Inl (FailedToReadResponse err)
      | Response StatusCode body \<Rightarrow>
          if StatusCode < 200 \<or> StatusCode \<ge> 300 then
            (if StatusCode = 401 \<or> StatusCode = 403 then Inl (AuthenticationFailedHTTP StatusCode)
             else if StatusCode = 302 then Inl AuthenticationFailedRedirect
             else Inl (FailedToFetchUploadPage StatusCode body))
          else
            let m1 = regexp_FindSubmatch env IdThenValue body;
                m2 = (if length m1 < 2 then regexp_FindSubmatch env ValueThenId body else m1);
                m3 = (if length m2 < 2 then regexp_FindSubmatch env AnyValueInTag body else m2)
            in if length m3 < 2 then Inl CouldNotObtainUploadToken
               else Inr (c\<lparr>requestToken := m3 ! 1\<rparr>))"

definition uploadFilePicker :: "CMSFilePickerClient \<Rightarrow> io_env \<Rightarrow> error + string" where
  "uploadFilePicker c env =
     (case http_upload env of
        NewRequestErr err \<Rightarrow> Inl (FailedToCreateRequest err)
      | DoErr err \<Rightarrow> Inl (RequestFailed err)
      | ReadAllErr err \<Rightarrow> Inl (FailedToReadResponse err)
      | Response StatusCode respBody \<Rightarrow>
          if StatusCode < 200 \<or> StatusCode \<ge> 300 then
            (if StatusCode = 401 \<or> StatusCode = 403 then Inl (AuthenticationFailedHTTP StatusCode)
             else Inl (UploadFailedWithStatus StatusCode respBody))
          else
            (case json_Unmarshal_FilePicker env respBody of
               Inl err \<Rightarrow> Inl (FailedToParseResponse err respBody)
             | Inr uploadResp \<Rightarrow>
                 if FileNameInserted uploadResp = [] then Inl (UploadFailed (Mensagem uploadResp))
                 else Inr (''https://'' @ account c @ ''.vtexassets.com/arquivos/''
                            @ PathEscape (FileNameInserted uploadResp))))"

definition uploadGraphQL :: "GraphQLClient \<Rightarrow> io_env \<Rightarrow> error + string" where
  "uploadGraphQL c env =
     (case http_upload env of
        NewRequestErr err \<Rightarrow> Inl (FailedToCreateRequest err)
      | DoErr err \<Rightarrow> Inl (RequestFailed err)
      | ReadAllErr err \<Rightarrow> Inl (FailedToReadResponse err)
      | Response StatusCode respBody \<Rightarrow>
          if StatusCode < 200 \<or> StatusCode \<ge> 300 then
            (if StatusCode = 401 \<or> StatusCode = 403 then Inl (AuthenticationFailedHTTP StatusCode)
             else Inl (UploadFailedWithStatus StatusCode respBody))
          else
            (case json_Unmarshal_GraphQL env respBody of
               Inl err \<Rightarrow> Inl (FailedToParseGraphQLResponse err)
             | Inr gqlResult \<Rightarrow>
                 (case Errors gqlResult of
                    e # es \<Rightarrow> Inl (GraphQLError (Message e))
                  | [] \<Rightarrow>
                      if Data_UploadFile_FileURL gqlResult = [] then Inl NoFileUrlInResponse
                      else Inr (Data_UploadFile_FileURL gqlResult))))"

text \<open>
  An early return of \<open>UploadFile\<close>: the error is stored in the result and returned
  beside it; the log file is as it was.
\<close>

definition return_error ::
    "UploadResult \<Rightarrow> error \<Rightarrow> string option
      \<Rightarrow> (UploadResult option \<times> error option) \<times> string option" where
  "return_error result err logfile = ((Some (result\<lparr>Error := Some err\<rparr>), Some err), logfile)"

text \<open>
  \<open>UploadFile\<close> of the FilePicker client. It returns the pointer to the result
  (\<open>Some\<close> when it is not nil), the error, and the log file as the call leaves it. The
  progress bar is not modelled.
\<close>

definition CMS_UploadFile ::
    "CMSFilePickerClient \<Rightarrow> io_env \<Rightarrow> log_env \<Rightarrow> string option \<Rightarrow> string
      \<Rightarrow> (UploadResult option \<times> error option) \<times> string option" where
  "CMS_UploadFile c env lenv logfile filePath =
     (let result = \<lparr>FileName = Base filePath, FileURL = [], Success = False, Error = None\<rparr> in
      case ValidateFile (strings_Map_ToLower env) (os_Stat env) filePath of
        Some err \<Rightarrow> return_error result err logfile
      | None \<Rightarrow>
      (case getRequestToken c env of
        Inl err \<Rightarrow> return_error result (FailedToGetRequestToken err) logfile
      | Inr c' \<Rightarrow>
      (case os_Open env filePath of
        Some err \<Rightarrow> return_error result (FailedToOpenFile err) logfile
      | None \<Rightarrow>
      (case file_Stat env filePath of
        Inl err \<Rightarrow> return_error result (FailedToGetFileInfo err) logfile
      | Inr fileSize \<Rightarrow>
      (let fileName = Base filePath in
       case writer_WriteField env ''requestToken'' (requestToken c') of
        Some err \<Rightarrow> return_error result (FailedToWriteField ''requestToken'' err) logfile
      | None \<Rightarrow>
      (case writer_CreatePart env of
        Some err \<Rightarrow> return_error result (FailedToCreatePart ''form file part'' err) logfile
      | None \<Rightarrow>
      (case io_Copy env of
        Some err \<Rightarrow> return_error result (FailedToCopyFileContent err) logfile
      | None \<Rightarrow>
      (case writer_Close env of
        Some err \<Rightarrow> return_error result (FailedToCloseWriter err) logfile
      | None \<Rightarrow>
      (case uploadFilePicker c' env of
        Inl err \<Rightarrow>
          let logged = LogUpload lenv
                \<lparr>Timestamp = time_Now env, File = fileName, Path = filePath, Size = fileSize,
                 Method = ''cms'', Account = account c', Workspace = workspace c',
                 Status = ''failed'', URL = [], ErrorText = error_string err\<rparr> logfile
          in ((Some (result\<lparr>Error := Some err\<rparr>), Some err), snd logged)
      | Inr fileURL \<Rightarrow>
          let logged = LogUpload lenv
                \<lparr>Timestamp = time_Now env, File = fileName, Path = filePath, Size = fileSize,
                 Method = ''cms'', Account = account c', Workspace = workspace c',
                 Status = ''success'', URL = fileURL, ErrorText = []\<rparr> logfile
          in ((Some (result\<lparr>FileURL := fileURL, Success := True\<rparr>), None),
              snd logged))))))))))"

text \<open>\<open>UploadFile\<close> of the GraphQL client.\<close>

definition GraphQL_UploadFile ::
    "GraphQLClient \<Rightarrow> io_env \<Rightarrow> log_env \<Rightarrow> string option \<Rightarrow> string
      \<Rightarrow> (UploadResult option \<times> error option) \<times> string option" where
  "GraphQL_UploadFile c env lenv logfile filePath =
     (let result = \<lparr>FileName = Base filePath, FileURL = [], Success = False, Error = None\<rparr> in
      case ValidateFile (strings_Map_ToLower env) (os_Stat env) filePath of
        Some err \<Rightarrow> return_error result err logfile
      | None \<Rightarrow>
      (case os_Open env filePath of
        Some err \<Rightarrow> return_error result (FailedToOpenFile err) logfile
      | None \<Rightarrow>
      (case file_Stat env filePath of
        Inl err \<Rightarrow> return_error result (FailedToGetFileInfo err) logfile
      | Inr fileSize \<Rightarrow>
      (case json_Marshal_operations env of
        Inl err \<Rightarrow> return_error result (FailedToMarshal ''operations'' err) logfile
      | Inr operationsJSON \<Rightarrow>
      (case writer_WriteField env ''operations'' operationsJSON of
        Some err \<Rightarrow> return_error result (FailedToWriteField ''operations'' err) logfile
      | None \<Rightarrow>
      (case json_Marshal_fileMap env of
        Inl err \<Rightarrow> return_error result (FailedToMarshal ''map'' err) logfile
      | Inr mapJSON \<Rightarrow>
      (case writer_WriteField env ''map'' mapJSON of
        Some err \<Rightarrow> return_error result (FailedToWriteField ''map'' err) logfile
      | None \<Rightarrow>
      (case writer_CreatePart env of
        Some err \<Rightarrow> return_error result (FailedToCreatePart ''form file'' err) logfile
      | None \<Rightarrow>
      (case io_Copy env of
        Some err \<Rightarrow> return_error result (FailedToCopyFileContent err) logfile
      | None \<Rightarrow>
      (case writer_Close env of
        Some err \<Rightarrow> return_error result (FailedToCloseWriter err) logfile
      | None \<Rightarrow>
      (case uploadGraphQL c env of
        Inl err \<Rightarrow>
          let logged = LogUpload lenv
                \<lparr>Timestamp = time_Now env, File = Base filePath, Path = filePath,
                 Size = fileSize, Method = ''graphql'', Account = account c,
                 Workspace = workspace c, Status = ''failed'', URL = [],
                 ErrorText = error_string err\<rparr> logfile
          in ((Some (result\<lparr>Error := Some err\<rparr>), Some err), snd logged)
      | Inr fileURL \<Rightarrow>
          let logged = LogUpload lenv
                \<lparr>Timestamp = time_Now env, File = Base filePath, Path = filePath,
                 Size = fileSize, Method = ''graphql'', Account = account c,
                 Workspace = workspace c, Status = ''success'', URL = fileURL,
                 ErrorText = []\<rparr> logfile
          in ((Some (result\<lparr>FileURL := fileURL, Success := True\<rparr>), None),
              snd logged))))))))))))"

text \<open>
  The steps of \<open>UploadFile\<close> that come before the upload request: validation, the
  request token (FilePicker only), opening the file, its \<open>Stat\<close>, and the assembly of
  the multipart body. These predicates say that all of them succeed, so that the call
  goes on to \<open>uploadFilePicker\<close> or \<open>uploadGraphQL\<close>.
\<close>

definition cms_reaches_upload :: "CMSFilePickerClient \<Rightarrow> io_env \<Rightarrow> string \<Rightarrow> bool" where
  "cms_reaches_upload c env filePath =
     (ValidateFile (strings_Map_ToLower env) (os_Stat env) filePath = None
      \<and> (case getRequestToken c env of
            Inl err \<Rightarrow> False
          | Inr c' \<Rightarrow> writer_WriteField env ''requestToken'' (requestToken c') = None)
      \<and> os_Open env filePath = None
      \<and> (case file_Stat env filePath of Inl err \<Rightarrow> False | Inr fileSize \<Rightarrow> True)
      \<and> writer_CreatePart env = None
      \<and> io_Copy env = None
      \<and> writer_Close env = None)"

definition graphql_reaches_upload :: "io_env \<Rightarrow> string \<Rightarrow> bool" where
  "graphql_reaches_upload env filePath =
     (ValidateFile (strings_Map_ToLower env) (os_Stat env) filePath = None
      \<and> os_Open env filePath = None
      \<and> (case file_Stat env filePath of Inl err \<Rightarrow> False | Inr fileSize \<Rightarrow> True)
      \<and> (case json_Marshal_operations env of
            Inl err \<Rightarrow> False
          | Inr operationsJSON \<Rightarrow> writer_WriteField env ''operations'' operationsJSON = None)
      \<and> (case json_Marshal_fileMap env of
            Inl err \<Rightarrow> False
          | Inr mapJSON \<Rightarrow> writer_WriteField env ''map'' mapJSON = None)
      \<and> writer_CreatePart env = None
      \<and> io_Copy env = None
      \<and> writer_Close env = None)"

text \<open>The entry \<open>UploadFile\<close> hands to \<open>LogUpload\<close> after the upload request.\<close>

definition upload_entry ::
    "string \<Rightarrow> string \<Rightarrow> string \<Rightarrow> io_env \<Rightarrow> string \<Rightarrow> nat \<Rightarrow> error + string
      \<Rightarrow> UploadLogEntry" where
  "upload_entry meth acc ws env filePath fileSize outcome =
     \<lparr>Timestamp = time_Now env, File = Base filePath, Path = filePath, Size = fileSize,
      Method = meth, Account = acc, Workspace = ws,
      Status = (case outcome of Inl err \<Rightarrow> ''failed'' | Inr fileURL \<Rightarrow> ''success''),
      URL = (case outcome of Inl err \<Rightarrow> [] | Inr fileURL \<Rightarrow> fileURL),
      ErrorText = (case outcome of Inl err \<Rightarrow> error_string err | Inr fileURL \<Rightarrow> [])\<rparr>"

section \<open>Discovery\<close>

text \<open>
  A directory tree as the walk sees it: a file (anything that is not a directory), a
  directory with its entries in the order \<open>os.ReadDir\<close> lists them, or a directory
  whose listing fails with an error.
\<close>

datatype fs_node =
    File_node
  | Dir_node "(string \<times> fs_node) list"
  | Unreadable_node string

text \<open>
  \<open>filepath.Walk\<close> with the callback of \<open>findImageFiles\<close>: the callback returns the
  error it is handed, which ends the walk; for a file it appends the path when the
  extension, as \<open>filepath.Ext\<close> returns it, is a key of \<open>ValidExtensions\<close>.
  \<open>filepath.Join\<close> is a parameter.
\<close>

fun walk :: "(string \<Rightarrow> string \<Rightarrow> string) \<Rightarrow> string \<Rightarrow> fs_node \<Rightarrow> string list
      \<Rightarrow> string + string list"
  and walk_entries :: "(string \<Rightarrow> string \<Rightarrow> string) \<Rightarrow> string \<Rightarrow> (string \<times> fs_node) list
      \<Rightarrow> string list \<Rightarrow> string + string list" where
  "walk Join path File_node files =
     Inr (if ValidExtensions (Ext path) then files @ [path] else files)"
| "walk Join path (Unreadable_node err) files = Inl err"
| "walk Join path (Dir_node entries) files = walk_entries Join path entries files"
| "walk_entries Join path [] files = Inr files"
| "walk_entries Join path (entry # rest) files =
     (case walk Join (Join path (fst entry)) (snd entry) files of
        Inl err \<Rightarrow> Inl err
      | Inr files' \<Rightarrow> walk_entries Join path rest files')"

text \<open>The loop over the entries of \<open>os.ReadDir\<close> in the non-recursive branch.\<close>

fun read_dir_loop :: "(string \<Rightarrow> string \<Rightarrow> string) \<Rightarrow> string \<Rightarrow> (string \<times> fs_node) list
      \<Rightarrow> string list \<Rightarrow> string list" where
  "read_dir_loop Join directory [] files = files"
| "read_dir_loop Join directory (entry # rest) files =
     (if snd entry = File_node \<and> ValidExtensions (Ext (fst entry))
      then read_dir_loop Join directory rest (files @ [Join directory (fst entry)])
      else read_dir_loop Join directory rest files)"

text \<open>
  \<open>findImageFiles\<close>. The third argument is what the file system holds at
  \<open>directory\<close>: an error when it cannot be reached, or the tree below it.
\<close>

definition findImageFiles ::
    "(string \<Rightarrow> string \<Rightarrow> string) \<Rightarrow> string \<Rightarrow> string + fs_node \<Rightarrow> bool
      \<Rightarrow> string + string list" where
  "findImageFiles Join directory root recursive =
     (if recursive then
        (case root of
           Inl err \<Rightarrow> Inl err
         | Inr node \<Rightarrow> walk Join directory node [])
      else
        (case root of
           Inl err \<Rightarrow> Inl err
         | Inr File_node \<Rightarrow> Inl ''not a directory''
         | Inr (Unreadable_node err) \<Rightarrow> Inl err
         | Inr (Dir_node entries) \<Rightarrow> Inr (read_dir_loop Join directory entries [])))"

section \<open>The scheduler\<close>

text \<open>
  \<open>uploadFilesWithConcurrency\<close> starts \<open>concurrency\<close> workers, sends every file into
  a channel whose capacity is the number of files, closes the channel and waits for the
  workers. The model is the interleaving of these steps. A worker waits at the channel,
  holds a path it received and is uploading, holds the result it is about to append, or
  has left its loop.
\<close>

datatype worker =
    Waiting
  | Uploading string
  | Appending "UploadResult option"
  | Finished

record 'w sched =
  to_send :: "string list"
  fileChan :: "string list"
  chan_closed :: bool
  workers :: "worker list"
  results :: "UploadResult option list"
  outside :: 'w

text \<open>
  One step: the main goroutine sends the next file or closes the channel; a worker
  receives a path, runs \<open>uploadFunc\<close> on it (which may change the world outside: the
  log file, the remote store), appends the result under the mutex, or finds the channel
  closed and empty and ends. An upload is one step: what two uploads in flight do to the
  world outside is not interleaved any finer, since the properties below are about the
  result list. The pause of a worker after each upload and the lines it prints are not
  modelled.
\<close>

inductive step ::
    "('w \<Rightarrow> string \<Rightarrow> (UploadResult option \<times> error option) \<times> 'w)
      \<Rightarrow> 'w sched \<Rightarrow> 'w sched \<Rightarrow> bool"
  for uploadFunc :: "'w \<Rightarrow> string \<Rightarrow> (UploadResult option \<times> error option) \<times> 'w" where
  send: "to_send s = f # fs
      \<Longrightarrow> step uploadFunc s (s\<lparr>to_send := fs, fileChan := fileChan s @ [f]\<rparr>)"
| close_chan: "to_send s = [] \<Longrightarrow> \<not> chan_closed s
      \<Longrightarrow> step uploadFunc s (s\<lparr>chan_closed := True\<rparr>)"
| receive: "i < length (workers s) \<Longrightarrow> workers s ! i = Waiting \<Longrightarrow> fileChan s = f # fs
      \<Longrightarrow> step uploadFunc s (s\<lparr>fileChan := fs, workers := (workers s)[i := Uploading f]\<rparr>)"
| upload: "i < length (workers s) \<Longrightarrow> workers s ! i = Uploading f
      \<Longrightarrow> step uploadFunc s
            (s\<lparr>workers := (workers s)[i := Appending (fst (fst (uploadFunc (outside s) f)))],
               outside := snd (uploadFunc (outside s) f)\<rparr>)"
| append_result: "i < length (workers s) \<Longrightarrow> workers s ! i = Appending r
      \<Longrightarrow> step uploadFunc s
            (s\<lparr>results := results s @ [r], workers := (workers s)[i := Waiting]\<rparr>)"
| leave: "i < length (workers s) \<Longrightarrow> workers s ! i = Waiting \<Longrightarrow> fileChan s = []
      \<Longrightarrow> chan_closed s
      \<Longrightarrow> step uploadFunc s (s\<lparr>workers := (workers s)[i := Finished]\<rparr>)"

definition init_sched :: "string list \<Rightarrow> nat \<Rightarrow> 'w \<Rightarrow> 'w sched" where
  "init_sched files concurrency w =
     \<lparr>to_send = files, fileChan = [], chan_closed = False,
      workers = replicate concurrency Waiting, results = [], outside = w\<rparr>"

text \<open>\<open>wg.Wait()\<close> returns: everything is sent, the channel is closed, every worker has ended.\<close>

definition returned :: "'w sched \<Rightarrow> bool" where
  "returned s = (to_send s = [] \<and> chan_closed s \<and> list_all (\<lambda>w. w = Finished) (workers s))"

text \<open>
  The world outside the scheduler: the log file, and how many uploads have been made.
  The answers of the operating system and the network to the \<open>n\<close>-th upload are
  \<open>envs n\<close> and \<open>lenvs n\<close>.
\<close>

record world =
  logfile :: "string option"
  uploads_made :: nat


subsection \<open>What a run of the scheduler conserves, and what it consumes\<close>







section \<open>An example environment\<close>

text \<open>
  A concrete run for the examples below: a png of 10 KB, a token page in which the
  pattern finds a token, an upload that the FilePicker answers with the inserted file
  name, and a log that can be written. No path of the examples holds a byte outside
  ASCII, so the Unicode path of \<open>strings.ToLower\<close> is never taken.

  \<open>encoding/json\<close> is tabulated at the entries and lines the examples use.
  \<open>example_line\<close> is the text \<open>json.Marshal\<close> prints for \<open>example_entry\<close> (one
  second after the zero time). \<open>raw_name_entry\<close> is the entry of a file whose name
  starts with the byte \<open>0xFF\<close>, which is not valid UTF-8: \<open>json.Marshal\<close> prints
  such a byte as the escape \<open>\ufffd\<close> (\<open>raw_name_line\<close>), and \<open>json.Unmarshal\<close> reads
  the escape as the three bytes of U+FFFD (\<open>replaced_name_entry\<close>). \<open>{}\<close> is read as the
  entry whose fields are all zero. Any other line of the examples is not JSON.
\<close>

definition example_env :: "string \<Rightarrow> io_env" where
  "example_env inserted =
     \<lparr>strings_Map_ToLower = (\<lambda>s. s),
      os_Stat = (\<lambda>p. FileInfo False 10240),
      os_Open = (\<lambda>p. None),
      file_Stat = (\<lambda>p. Inr 10240),
      http_token = Response 200 ''token page'',
      regexp_FindSubmatch = (\<lambda>pat body. [''whole match'', ''token'']),
      http_upload = Response 200 ''upload reply'',
      json_Unmarshal_FilePicker = (\<lambda>body. Inr \<lparr>FileNameInserted = inserted, Mensagem = []\<rparr>),
      json_Unmarshal_GraphQL = (\<lambda>body. Inl ''unexpected end of JSON input''),
      json_Marshal_operations = Inr ''operations'',
      json_Marshal_fileMap = Inr ''map'',
      writer_WriteField = (\<lambda>name v. None),
      writer_CreatePart = None,
      io_Copy = None,
      writer_Close = None,
      time_Now = 1000000000\<rparr>"

definition example_entry :: UploadLogEntry where
  "example_entry =
     \<lparr>Timestamp = 1000000000, File = ''logo.png'', Path = ''/img/logo.png'', Size = 10240,
      Method = ''cms'', Account = ''acme'', Workspace = ''master'', Status = ''success'',
      URL = ''https://acme.vtexassets.com/arquivos/logo.png'', ErrorText = []\<rparr>"

definition example_line :: string where
  \<open>example_line =
     ''{"timestamp":"0001-01-01T00:00:01Z","file":"logo.png","path":"/img/logo.png",''
     @ ''"size":10240,"method":"cms","account":"acme","workspace":"master",''
     @ ''"status":"success","url":"https://acme.vtexassets.com/arquivos/logo.png"}''\<close>

definition zero_entry :: UploadLogEntry where
  "zero_entry =
     \<lparr>Timestamp = 0, File = [], Path = [], Size = 0, Method = [], Account = [],
      Workspace = [], Status = [], URL = [], ErrorText = []\<rparr>"

definition raw_name_entry :: UploadLogEntry where
  "raw_name_entry =
     \<lparr>Timestamp = 1000000000, File = CHR 0xFF # ''.png'', Path = ''/img/'' @ CHR 0xFF # ''.png'',
      Size = 10240, Method = ''cms'', Account = ''acme'', Workspace = ''master'',
      Status = ''success'', URL = [], ErrorText = []\<rparr>"

definition raw_name_line :: string where
  \<open>raw_name_line =
     ''{"timestamp":"0001-01-01T00:00:01Z","file":"'' @ CHR 0x5C # ''ufffd.png","path":"/img/''
     @ CHR 0x5C # ''ufffd.png","size":10240,"method":"cms","account":"acme",''
     @ ''"workspace":"master","status":"success"}''\<close>

definition replaced_name_entry :: UploadLogEntry where
  "replaced_name_entry =
     \<lparr>Timestamp = 1000000000, File = [CHR 0xEF, CHR 0xBF, CHR 0xBD] @ ''.png'',
      Path = ''/img/'' @ [CHR 0xEF, CHR 0xBF, CHR 0xBD] @ ''.png'',
      Size = 10240, Method = ''cms'', Account = ''acme'', Workspace = ''master'',
      Status = ''success'', URL = [], ErrorText = []\<rparr>"

definition example_log_env :: log_env where
  "example_log_env =
     \<lparr>xdg_StateFile = None, os_OpenFile = None, log_time_Now = 1000000000,
      json_Marshal = (\<lambda>e. if e = example_entry then Inr example_line
                           else if e = raw_name_entry then Inr raw_name_line
                           else Inl ''not tabulated''),
      file_Write = (\<lambda>bytes. None)\<rparr>"

definition example_read_env :: read_env where
  "example_read_env =
     \<lparr>os_Open_log = None,
      json_Unmarshal = (\<lambda>l. if l = example_line then Some example_entry
                             else if l = raw_name_line then Some replaced_name_entry
                             else if l = ''{}'' then Some zero_entry
                             else None)\<rparr>"

section \<open>Properties of the validator\<close>

text \<open>
  The two paths of \<open>strings.ToLower\<close>. The validator accepts a name whose
  extension is \<open>.G\<close>, the capital I with a dot above (U+0130, the bytes
  \<open>0xC4 0xB0\<close>) and \<open>F\<close>, given that the Unicode mapping turns this extension
  into \<open>.gif\<close>.
\<close>

lemma ToLower_ascii: "list_all isASCII s \<Longrightarrow> ToLower ul s = map lower_byte s"
  by (simp add: ToLower_def)

lemma ToLower_unicode: "\<not> list_all isASCII s \<Longrightarrow> ToLower ul s = ul s"
  by (simp add: ToLower_def)

lemma ValidateFile_dotted_capital_I:
  assumes "ul (''.G'' @ [CHR 0xC4, CHR 0xB0] @ ''F'') = ''.gif''"
  shows "ValidateFile ul (\<lambda>p. FileInfo False 10240) (''/img/a.G'' @ [CHR 0xC4, CHR 0xB0] @ ''F'')
           = None"
  using assms
  by (simp add: ValidateFile_def MaxFileSize_def Ext_def IsPathSeparator_def ToLower_def
        isASCII_def ValidExtensions_def)

text \<open>
  Claim C2, as stated: the validator succeeds exactly when the path exists, is not a
  directory, has a size above zero and of at most 5 MiB and a supported lower-cased
  extension, and every failure is one of not-found, is-directory, too-large, empty and
  unsupported-type. The second half does not hold: when \<open>os.Stat\<close> fails with an error
  other than not-exist, the validator answers with a sixth error, \<open>failed to access
  file\<close>.
\<close>

theorem ValidateFile_access_error_counterexample:
  "ValidateFile (\<lambda>s. s) (\<lambda>p. ErrOther ''permission denied'') ''/img/logo.png''
     = Some (FailedToAccessFile ''permission denied'')
   \<and> \<not> listed_validation_error (FailedToAccessFile ''permission denied'')"
  by (simp add: ValidateFile_def)

text \<open>
  Claim C2, amended: the validator succeeds exactly when \<open>os.Stat\<close> succeeds and reports
  a path that is not a directory, with a size above zero and of at most 5 MiB
  (\<open>5 * 1024 * 1024\<close> bytes), and the extension, lower-cased by \<open>strings.ToLower\<close>
  (whatever its Unicode mapping \<open>ul\<close> does), is supported. Each error is
  returned exactly in its case: not-found when \<open>os.Stat\<close> says the path does not exist,
  failed-to-access on any other error of \<open>os.Stat\<close>, is-directory for a directory,
  too-large above 5 MiB, empty at size zero, unsupported-type when all the rest holds and
  the extension is not in the table. No other error is returned.
\<close>

theorem ValidateFile_accepts_iff:
  "(ValidateFile ul st p = None)
     = (\<exists>sz. st p = FileInfo False sz \<and> 0 < sz \<and> sz \<le> 5 * 1024 * 1024
              \<and> ValidExtensions (ToLower ul (Ext p)))
   \<and> (ValidateFile ul st p = Some (FileDoesNotExist p)) = (st p = ErrNotExist)
   \<and> (ValidateFile ul st p = Some (FailedToAccessFile m)) = (st p = ErrOther m)
   \<and> (ValidateFile ul st p = Some (PathIsDirectory p)) = (\<exists>sz. st p = FileInfo True sz)
   \<and> (ValidateFile ul st p = Some (FileSizeExceeds n (5 * 1024 * 1024)))
       = (st p = FileInfo False n \<and> 5 * 1024 * 1024 < n)
   \<and> (ValidateFile ul st p = Some (FileIsEmpty p)) = (st p = FileInfo False 0)
   \<and> (ValidateFile ul st p = Some (UnsupportedFileType (ToLower ul (Ext p))))
       = (\<exists>sz. st p = FileInfo False sz \<and> 0 < sz \<and> sz \<le> 5 * 1024 * 1024
                \<and> \<not> ValidExtensions (ToLower ul (Ext p)))
   \<and> (case ValidateFile ul st p of
         None \<Rightarrow> True
       | Some e \<Rightarrow> listed_validation_error e \<or> (\<exists>msg. e = FailedToAccessFile msg))"
  by (cases "st p") (auto simp: ValidateFile_def MaxFileSize_def)

section \<open>Properties of the upload requests\<close>

text \<open>
  Claim C7: in \<open>uploadFilePicker\<close> and in \<open>uploadGraphQL\<close>, a response with status 401
  or 403 gives the authentication error; any other status outside 200..299 gives the
  upload-failed error that carries the status and the body of the response (its text
  prints both); a status within 200..299 gives neither.
\<close>

theorem upload_status_mapping:
  "(let env' = env\<lparr>http_upload := Response st body\<rparr>;
        a = uploadFilePicker c env';
        b = uploadGraphQL g env'
    in if st = 401 \<or> st = 403
         then a = Inl (AuthenticationFailedHTTP st) \<and> b = Inl (AuthenticationFailedHTTP st)
       else if st < 200 \<or> 300 \<le> st
         then a = Inl (UploadFailedWithStatus st body) \<and> b = Inl (UploadFailedWithStatus st body)
       else (\<forall>n. a \<noteq> Inl (AuthenticationFailedHTTP n))
          \<and> (\<forall>n t. a \<noteq> Inl (UploadFailedWithStatus n t))
          \<and> (\<forall>n. b \<noteq> Inl (AuthenticationFailedHTTP n))
          \<and> (\<forall>n t. b \<noteq> Inl (UploadFailedWithStatus n t)))
   \<and> error_string (UploadFailedWithStatus st body)
       = ''upload failed with status '' @ show_int st @ '': '' @ body"
  by (auto simp: Let_def uploadFilePicker_def uploadGraphQL_def split: sum.splits list.splits)

section \<open>The shape of \<open>UploadFile\<close>\<close>

text \<open>
  A call of \<open>UploadFile\<close> either returns early, with an error and the log file
  untouched, or reaches the upload request and then hands one entry to \<open>LogUpload\<close>.
\<close>

lemma uploadFilePicker_url_nonempty: "uploadFilePicker c env = Inr url \<Longrightarrow> url \<noteq> []"
  by (auto simp: uploadFilePicker_def split: http_result.splits if_splits sum.splits)

lemma uploadGraphQL_url_nonempty: "uploadGraphQL c env = Inr url \<Longrightarrow> url \<noteq> []"
  by (auto simp: uploadGraphQL_def split: http_result.splits if_splits sum.splits list.splits)

lemma getRequestToken_account:
  "getRequestToken c env = Inr c' \<Longrightarrow> account c' = account c \<and> workspace c' = workspace c"
  by (auto simp: getRequestToken_def Let_def split: http_result.splits if_splits)

lemma CMS_UploadFile_early:
  assumes "\<not> cms_reaches_upload c env p"
  shows "\<exists>e. \<forall>lenv lf. CMS_UploadFile c env lenv lf p =
     return_error \<lparr>FileName = Base p, FileURL = [], Success = False, Error = None\<rparr> e lf"
proof -
  consider
      (validate) e where "ValidateFile (strings_Map_ToLower env) (os_Stat env) p = Some e"
    | (token) e where "ValidateFile (strings_Map_ToLower env) (os_Stat env) p = None" and "getRequestToken c env = Inl e"
    | (open_file) c' e where "ValidateFile (strings_Map_ToLower env) (os_Stat env) p = None" and "getRequestToken c env = Inr c'" and
        "os_Open env p = Some e"
    | (info) c' e where "ValidateFile (strings_Map_ToLower env) (os_Stat env) p = None" and "getRequestToken c env = Inr c'" and
        "os_Open env p = None" and "file_Stat env p = Inl e"
    | (field) c' sz e where "ValidateFile (strings_Map_ToLower env) (os_Stat env) p = None" and "getRequestToken c env = Inr c'" and
        "os_Open env p = None" and "file_Stat env p = Inr sz" and
        "writer_WriteField env ''requestToken'' (requestToken c') = Some e"
    | (part) c' sz e where "ValidateFile (strings_Map_ToLower env) (os_Stat env) p = None" and "getRequestToken c env = Inr c'" and
        "os_Open env p = None" and "file_Stat env p = Inr sz" and
        "writer_WriteField env ''requestToken'' (requestToken c') = None" and
        "writer_CreatePart env = Some e"
    | (copy) c' sz e where "ValidateFile (strings_Map_ToLower env) (os_Stat env) p = None" and "getRequestToken c env = Inr c'" and
        "os_Open env p = None" and "file_Stat env p = Inr sz" and
        "writer_WriteField env ''requestToken'' (requestToken c') = None" and
        "writer_CreatePart env = None" and "io_Copy env = Some e"
    | (close_writer) c' sz e where "ValidateFile (strings_Map_ToLower env) (os_Stat env) p = None" and "getRequestToken c env = Inr c'" and
        "os_Open env p = None" and "file_Stat env p = Inr sz" and
        "writer_WriteField env ''requestToken'' (requestToken c') = None" and
        "writer_CreatePart env = None" and "io_Copy env = None" and "writer_Close env = Some e"
    using assms unfolding cms_reaches_upload_def
    by (cases "ValidateFile (strings_Map_ToLower env) (os_Stat env) p"; cases "getRequestToken c env";
        cases "os_Open env p"; cases "file_Stat env p"; cases "writer_CreatePart env";
        cases "io_Copy env"; cases "writer_Close env") force+
  then show ?thesis
    by cases (simp_all add: CMS_UploadFile_def Let_def, blast+)
qed

lemma CMS_UploadFile_late:
  assumes "cms_reaches_upload c env p"
  shows "\<exists>c' sz. getRequestToken c env = Inr c' \<and> file_Stat env p = Inr sz
    \<and> CMS_UploadFile c env lenv lf p =
      (case uploadFilePicker c' env of
         Inl err \<Rightarrow>
           ((Some \<lparr>FileName = Base p, FileURL = [], Success = False, Error = Some err\<rparr>, Some err),
            snd (LogUpload lenv (upload_entry ''cms'' (account c) (workspace c) env p sz (Inl err)) lf))
       | Inr url \<Rightarrow>
           ((Some \<lparr>FileName = Base p, FileURL = url, Success = True, Error = None\<rparr>, None),
            snd (LogUpload lenv (upload_entry ''cms'' (account c) (workspace c) env p sz (Inr url)) lf)))"
proof -
  from assms obtain c' sz where
    h: "ValidateFile (strings_Map_ToLower env) (os_Stat env) p = None" "getRequestToken c env = Inr c'"
       "writer_WriteField env ''requestToken'' (requestToken c') = None"
       "os_Open env p = None" "file_Stat env p = Inr sz" "writer_CreatePart env = None"
       "io_Copy env = None" "writer_Close env = None"
    by (auto simp: cms_reaches_upload_def split: sum.splits)
  have acc: "account c' = account c" "workspace c' = workspace c"
    using getRequestToken_account [OF h(2)] by simp_all
  have "CMS_UploadFile c env lenv lf p =
      (case uploadFilePicker c' env of
         Inl err \<Rightarrow>
           ((Some \<lparr>FileName = Base p, FileURL = [], Success = False, Error = Some err\<rparr>, Some err),
            snd (LogUpload lenv (upload_entry ''cms'' (account c) (workspace c) env p sz (Inl err)) lf))
       | Inr url \<Rightarrow>
           ((Some \<lparr>FileName = Base p, FileURL = url, Success = True, Error = None\<rparr>, None),
            snd (LogUpload lenv (upload_entry ''cms'' (account c) (workspace c) env p sz (Inr url)) lf)))"
    by (simp add: CMS_UploadFile_def h acc Let_def upload_entry_def split: sum.splits)
  with h show ?thesis by blast
qed

lemma GraphQL_UploadFile_early:
  assumes "\<not> graphql_reaches_upload env p"
  shows "\<exists>e. \<forall>lenv lf. GraphQL_UploadFile g env lenv lf p =
     return_error \<lparr>FileName = Base p, FileURL = [], Success = False, Error = None\<rparr> e lf"
proof -
  consider
      (validate) e where "ValidateFile (strings_Map_ToLower env) (os_Stat env) p = Some e"
    | (open_file) e where "ValidateFile (strings_Map_ToLower env) (os_Stat env) p = None" and "os_Open env p = Some e"
    | (info) e where "ValidateFile (strings_Map_ToLower env) (os_Stat env) p = None" and
        "os_Open env p = None" and "file_Stat env p = Inl e"
    | (ops) sz e where "ValidateFile (strings_Map_ToLower env) (os_Stat env) p = None" and
        "os_Open env p = None" and "file_Stat env p = Inr sz" and "json_Marshal_operations env = Inl e"
    | (opsfield) sz ops e where "ValidateFile (strings_Map_ToLower env) (os_Stat env) p = None" and
        "os_Open env p = None" and "file_Stat env p = Inr sz" and "json_Marshal_operations env = Inr ops" and
        "writer_WriteField env ''operations'' ops = Some e"
    | (fmap) sz ops e where "ValidateFile (strings_Map_ToLower env) (os_Stat env) p = None" and
        "os_Open env p = None" and "file_Stat env p = Inr sz" and "json_Marshal_operations env = Inr ops" and
        "writer_WriteField env ''operations'' ops = None" and "json_Marshal_fileMap env = Inl e"
    | (mapfield) sz ops fm e where "ValidateFile (strings_Map_ToLower env) (os_Stat env) p = None" and
        "os_Open env p = None" and "file_Stat env p = Inr sz" and "json_Marshal_operations env = Inr ops" and
        "writer_WriteField env ''operations'' ops = None" and "json_Marshal_fileMap env = Inr fm" and
        "writer_WriteField env ''map'' fm = Some e"
    | (part) sz ops fm e where "ValidateFile (strings_Map_ToLower env) (os_Stat env) p = None" and
        "os_Open env p = None" and "file_Stat env p = Inr sz" and "json_Marshal_operations env = Inr ops" and
        "writer_WriteField env ''operations'' ops = None" and "json_Marshal_fileMap env = Inr fm" and
        "writer_WriteField env ''map'' fm = None" and "writer_CreatePart env = Some e"
    | (copy) sz ops fm e where "ValidateFile (strings_Map_ToLower env) (os_Stat env) p = None" and
        "os_Open env p = None" and "file_Stat env p = Inr sz" and "json_Marshal_operations env = Inr ops" and
        "writer_WriteField env ''operations'' ops = None" and "json_Marshal_fileMap env = Inr fm" and
        "writer_WriteField env ''map'' fm = None" and "writer_CreatePart env = None" and
        "io_Copy env = Some e"
    | (close_writer) sz ops fm e where "ValidateFile (strings_Map_ToLower env) (os_Stat env) p = None" and
        "os_Open env p = None" and "file_Stat env p = Inr sz" and "json_Marshal_operations env = Inr ops" and
        "writer_WriteField env ''operations'' ops = None" and "json_Marshal_fileMap env = Inr fm" and
        "writer_WriteField env ''map'' fm = None" and "writer_CreatePart env = None" and
        "io_Copy env = None" and "writer_Close env = Some e"
    using assms unfolding graphql_reaches_upload_def
    by (cases "ValidateFile (strings_Map_ToLower env) (os_Stat env) p"; cases "os_Open env p"; cases "file_Stat env p";
        cases "json_Marshal_operations env"; cases "json_Marshal_fileMap env";
        cases "writer_CreatePart env"; cases "io_Copy env"; cases "writer_Close env") force+
  then show ?thesis
    by cases (simp_all add: GraphQL_UploadFile_def Let_def, blast+)
qed

lemma GraphQL_UploadFile_late:
  assumes "graphql_reaches_upload env p"
  shows "\<exists>sz. file_Stat env p = Inr sz
    \<and> GraphQL_UploadFile g env lenv lf p =
      (case uploadGraphQL g env of
         Inl err \<Rightarrow>
           ((Some \<lparr>FileName = Base p, FileURL = [], Success = False, Error = Some err\<rparr>, Some err),
            snd (LogUpload lenv (upload_entry ''graphql'' (account g) (workspace g) env p sz (Inl err)) lf))
       | Inr url \<Rightarrow>
           ((Some \<lparr>FileName = Base p, FileURL = url, Success = True, Error = None\<rparr>, None),
            snd (LogUpload lenv (upload_entry ''graphql'' (account g) (workspace g) env p sz (Inr url)) lf)))"
proof -
  from assms obtain sz ops fm where
    h: "ValidateFile (strings_Map_ToLower env) (os_Stat env) p = None"
       "os_Open env p = None" "file_Stat env p = Inr sz"
       "json_Marshal_operations env = Inr ops" "writer_WriteField env ''operations'' ops = None"
       "json_Marshal_fileMap env = Inr fm" "writer_WriteField env ''map'' fm = None"
       "writer_CreatePart env = None"
       "io_Copy env = None" "writer_Close env = None"
    by (auto simp: graphql_reaches_upload_def split: sum.splits)
  have "GraphQL_UploadFile g env lenv lf p =
      (case uploadGraphQL g env of
         Inl err \<Rightarrow>
           ((Some \<lparr>FileName = Base p, FileURL = [], Success = False, Error = Some err\<rparr>, Some err),
            snd (LogUpload lenv (upload_entry ''graphql'' (account g) (workspace g) env p sz (Inl err)) lf))
       | Inr url \<Rightarrow>
           ((Some \<lparr>FileName = Base p, FileURL = url, Success = True, Error = None\<rparr>, None),
            snd (LogUpload lenv (upload_entry ''graphql'' (account g) (workspace g) env p sz (Inr url)) lf)))"
    by (simp add: GraphQL_UploadFile_def h Let_def upload_entry_def split: sum.splits)
  with h show ?thesis by blast
qed

text \<open>
  Claim C5: on both backends the result and the error that \<open>UploadFile\<close> returns are
  the same whatever \<open>LogUpload\<close> meets (a state directory that cannot be made, a file
  that cannot be opened, an entry that cannot be encoded, a write that fails) and
  whatever the log file holds: the outcome is fixed before the log is written, and a
  failed append never turns a success into a failure.
\<close>

theorem result_independent_of_log:
  "fst (CMS_UploadFile c env lenv lf p) = fst (CMS_UploadFile c env lenv' lf' p)
   \<and> fst (GraphQL_UploadFile g env lenv lf p) = fst (GraphQL_UploadFile g env lenv' lf' p)"
proof
  show "fst (CMS_UploadFile c env lenv lf p) = fst (CMS_UploadFile c env lenv' lf' p)"
  proof (cases "cms_reaches_upload c env p")
    case True
    from CMS_UploadFile_late [OF True, of lenv lf] CMS_UploadFile_late [OF True, of lenv' lf']
    show ?thesis by (auto split: sum.splits)
  next
    case False
    from CMS_UploadFile_early [OF False] show ?thesis
      by (auto simp: return_error_def)
  qed
  show "fst (GraphQL_UploadFile g env lenv lf p) = fst (GraphQL_UploadFile g env lenv' lf' p)"
  proof (cases "graphql_reaches_upload env p")
    case True
    from GraphQL_UploadFile_late [OF True, of g lenv lf]
         GraphQL_UploadFile_late [OF True, of g lenv' lf']
    show ?thesis by (auto split: sum.splits)
  next
    case False
    from GraphQL_UploadFile_early [OF False, of g] show ?thesis
      by (auto simp: return_error_def)
  qed
qed

lemma CMS_UploadFile_shape:
  "\<exists>r. fst (fst (CMS_UploadFile c env lenv lf p)) = Some r
        \<and> FileName r = Base p
        \<and> (snd (fst (CMS_UploadFile c env lenv lf p)) = None) = Success r
        \<and> (if Success r then FileURL r \<noteq> [] \<and> Error r = None
            else Error r \<noteq> None \<and> snd (fst (CMS_UploadFile c env lenv lf p)) = Error r)"
proof (cases "cms_reaches_upload c env p")
  case True
  from CMS_UploadFile_late [OF True, of lenv lf] obtain c' sz where
    eq: "CMS_UploadFile c env lenv lf p =
      (case uploadFilePicker c' env of
         Inl err \<Rightarrow>
           ((Some \<lparr>FileName = Base p, FileURL = [], Success = False, Error = Some err\<rparr>, Some err),
            snd (LogUpload lenv (upload_entry ''cms'' (account c) (workspace c) env p sz (Inl err)) lf))
       | Inr url \<Rightarrow>
           ((Some \<lparr>FileName = Base p, FileURL = url, Success = True, Error = None\<rparr>, None),
            snd (LogUpload lenv (upload_entry ''cms'' (account c) (workspace c) env p sz (Inr url)) lf)))"
    by blast
  show ?thesis
    by (cases "uploadFilePicker c' env") (auto simp: eq uploadFilePicker_url_nonempty)
next
  case False
  from CMS_UploadFile_early [OF False] show ?thesis
    by (auto simp: return_error_def)
qed

lemma GraphQL_UploadFile_shape:
  "\<exists>r. fst (fst (GraphQL_UploadFile g env lenv lf p)) = Some r
        \<and> FileName r = Base p
        \<and> (snd (fst (GraphQL_UploadFile g env lenv lf p)) = None) = Success r
        \<and> (if Success r then FileURL r \<noteq> [] \<and> Error r = None
            else Error r \<noteq> None \<and> snd (fst (GraphQL_UploadFile g env lenv lf p)) = Error r)"
proof (cases "graphql_reaches_upload env p")
  case True
  from GraphQL_UploadFile_late [OF True, of g lenv lf] obtain sz where
    eq: "GraphQL_UploadFile g env lenv lf p =
      (case uploadGraphQL g env of
         Inl err \<Rightarrow>
           ((Some \<lparr>FileName = Base p, FileURL = [], Success = False, Error = Some err\<rparr>, Some err),
            snd (LogUpload lenv (upload_entry ''graphql'' (account g) (workspace g) env p sz (Inl err)) lf))
       | Inr url \<Rightarrow>
           ((Some \<lparr>FileName = Base p, FileURL = url, Success = True, Error = None\<rparr>, None),
            snd (LogUpload lenv (upload_entry ''graphql'' (account g) (workspace g) env p sz (Inr url)) lf)))"
    by blast
  show ?thesis
    by (cases "uploadGraphQL g env") (auto simp: eq uploadGraphQL_url_nonempty)
next
  case False
  from GraphQL_UploadFile_early [OF False, of g] show ?thesis
    by (auto simp: return_error_def)
qed

text \<open>
  Claim C10: on both backends \<open>UploadFile\<close> returns a result that is not nil, whose
  \<open>FileName\<close> is the base name of the path; the error is nil exactly when \<open>Success\<close>
  is true; on success \<open>FileURL\<close> is not empty and the field \<open>Error\<close> is nil; on
  failure \<open>Success\<close> is false and the field \<open>Error\<close> holds the returned error.
\<close>

theorem UploadFile_result_shape:
  "(\<exists>r. fst (fst (CMS_UploadFile c env lenv lf p)) = Some r
        \<and> FileName r = Base p
        \<and> (snd (fst (CMS_UploadFile c env lenv lf p)) = None) = Success r
        \<and> (if Success r then FileURL r \<noteq> [] \<and> Error r = None
            else Error r \<noteq> None \<and> snd (fst (CMS_UploadFile c env lenv lf p)) = Error r))
   \<and> (\<exists>r. fst (fst (GraphQL_UploadFile g env lenv lf p)) = Some r
        \<and> FileName r = Base p
        \<and> (snd (fst (GraphQL_UploadFile g env lenv lf p)) = None) = Success r
        \<and> (if Success r then FileURL r \<noteq> [] \<and> Error r = None
            else Error r \<noteq> None \<and> snd (fst (GraphQL_UploadFile g env lenv lf p)) = Error r))"
  using CMS_UploadFile_shape GraphQL_UploadFile_shape by blast

section \<open>The destination URL of the FilePicker backend\<close>

lemmas example_defs =
  example_env_def example_log_env_def example_entry_def raw_name_entry_def
  ValidateFile_def MaxFileSize_def ValidExtensions_def ToLower_def isASCII_def lower_byte_def Ext_def
  Base_def IsPathSeparator_def getRequestToken_def NewCMSFilePickerClient_def
  uploadFilePicker_def PathEscape_def shouldEscape_def escape_byte_def upperhex_def
  LogUpload_def Let_def return_error_def

lemma PathEscape_append: "PathEscape (a @ b) = PathEscape a @ PathEscape b"
  by (simp add: PathEscape_def)

lemma PathEscape_space: "PathEscape '' '' = ''%20''"
  by (simp add: PathEscape_def shouldEscape_def escape_byte_def upperhex_def)

lemma upperhex_no_space:
  assumes "n < 16"
  shows "upperhex ! n \<noteq> CHR '' ''"
proof -
  have len: "length upperhex = 16"
    by (simp add: upperhex_def)
  have "upperhex ! n \<in> set upperhex"
    by (rule nth_mem) (simp add: len assms)
  moreover have "CHR '' '' \<notin> set upperhex"
    by (simp add: upperhex_def)
  ultimately show ?thesis by metis
qed

lemma of_char_div16: "(of_char c :: nat) div 16 < 16"
proof -
  have "(of_char c :: nat) mod 256 < 256" by simp
  then have "(of_char c :: nat) < 16 * 16" by (simp only: of_char_mod_256)
  then show ?thesis by (rule less_mult_imp_div_less)
qed

lemma PathEscape_no_raw_space: "CHR '' '' \<notin> set (PathEscape s)"
proof (induction s)
  case Nil
  show ?case by (simp add: PathEscape_def)
next
  case (Cons c s)
  have "CHR '' '' \<notin> set (if shouldEscape c then escape_byte c else [c])"
    using upperhex_no_space [OF of_char_div16 [of c]]
      upperhex_no_space [of "(of_char c :: nat) mod 16"]
    by (auto simp: escape_byte_def shouldEscape_def)
  with Cons show ?case by (simp add: PathEscape_def)
qed

lemma PathEscape_unreserved:
  "PathEscape (filter (\<lambda>c. \<not> shouldEscape c) s) = filter (\<lambda>c. \<not> shouldEscape c) s"
  by (induction s) (simp_all add: PathEscape_def)

text \<open>
  Claim C6: when \<open>UploadFile\<close> of the FilePicker client succeeds, the URL of the result
  is \<open>https://{account}.vtexassets.com/arquivos/\<close> followed by \<open>url.PathEscape\<close> of the
  inserted file name that the response carries. A space in the name becomes \<open>%20\<close>: the
  escaped name never holds a raw space, and no \<open>+\<close> stands for one
  (\<open>my file.jpg\<close> gives \<open>my%20file.jpg\<close>). A name made of bytes that need no escape,
  such as \<open>logo.png\<close>, is reproduced as it is.
\<close>

theorem CMS_success_url:
  assumes "fst (fst (CMS_UploadFile c env lenv lf p)) = Some r" and "Success r"
  shows "(\<exists>st body resp. http_upload env = Response st body
            \<and> json_Unmarshal_FilePicker env body = Inr resp
            \<and> FileURL r = ''https://'' @ account c @ ''.vtexassets.com/arquivos/''
                 @ PathEscape (FileNameInserted resp))
         \<and> PathEscape (a @ '' '' @ b) = PathEscape a @ ''%20'' @ PathEscape b
         \<and> CHR '' '' \<notin> set (PathEscape s)
         \<and> PathEscape ''my file.jpg'' = ''my%20file.jpg''
         \<and> PathEscape (filter (\<lambda>ch. \<not> shouldEscape ch) s) = filter (\<lambda>ch. \<not> shouldEscape ch) s
         \<and> PathEscape ''logo.png'' = ''logo.png''"
proof -
  have reach: "cms_reaches_upload c env p"
  proof (rule ccontr)
    assume "\<not> cms_reaches_upload c env p"
    from CMS_UploadFile_early [OF this] assms show False
      by (auto simp: return_error_def)
  qed
  from CMS_UploadFile_late [OF reach, of lenv lf] obtain c' sz where
    tok: "getRequestToken c env = Inr c'" and
    eq: "CMS_UploadFile c env lenv lf p =
      (case uploadFilePicker c' env of
         Inl err \<Rightarrow>
           ((Some \<lparr>FileName = Base p, FileURL = [], Success = False, Error = Some err\<rparr>, Some err),
            snd (LogUpload lenv (upload_entry ''cms'' (account c) (workspace c) env p sz (Inl err)) lf))
       | Inr url \<Rightarrow>
           ((Some \<lparr>FileName = Base p, FileURL = url, Success = True, Error = None\<rparr>, None),
            snd (LogUpload lenv (upload_entry ''cms'' (account c) (workspace c) env p sz (Inr url)) lf)))"
    by blast
  from eq assms have url: "uploadFilePicker c' env = Inr (FileURL r)"
    by (cases "uploadFilePicker c' env") auto
  have acc: "account c' = account c"
    using getRequestToken_account [OF tok] by simp
  from url have "\<exists>st body resp. http_upload env = Response st body
            \<and> json_Unmarshal_FilePicker env body = Inr resp
            \<and> FileURL r = ''https://'' @ account c @ ''.vtexassets.com/arquivos/''
                 @ PathEscape (FileNameInserted resp)"
    by (auto simp: uploadFilePicker_def acc split: http_result.splits if_splits sum.splits)
  moreover have "PathEscape (a @ '' '' @ b) = PathEscape a @ ''%20'' @ PathEscape b"
    using PathEscape_space by (simp add: PathEscape_append del: append.simps)
  moreover have "PathEscape ''my file.jpg'' = ''my%20file.jpg''"
    by (simp add: PathEscape_def shouldEscape_def escape_byte_def upperhex_def)
  moreover have "PathEscape ''logo.png'' = ''logo.png''"
    by (simp add: PathEscape_def shouldEscape_def)
  ultimately show ?thesis
    using PathEscape_no_raw_space PathEscape_unreserved by blast
qed

lemma example_upload:
  "CMS_UploadFile (NewCMSFilePickerClient ''acme'' ''master'') (example_env ''my file.jpg'')
      example_log_env None ''/img/my file.jpg''
   = ((Some \<lparr>FileName = ''my file.jpg'',
             FileURL = ''https://acme.vtexassets.com/arquivos/my%20file.jpg'',
             Success = True, Error = None\<rparr>, None), Some [])"
  by (simp add: CMS_UploadFile_def example_defs)

theorem CMS_success_url_witness:
  "(\<exists>r. fst (fst (CMS_UploadFile (NewCMSFilePickerClient ''acme'' ''master'')
                 (example_env ''my file.jpg'') example_log_env None ''/img/my file.jpg'')) = Some r
        \<and> Success r
        \<and> FileURL r = ''https://acme.vtexassets.com/arquivos/my%20file.jpg'')
   \<and> PathEscape ''my file.jpg'' = ''my%20file.jpg''"
  using CMS_success_url [of "NewCMSFilePickerClient ''acme'' ''master''"
      "example_env ''my file.jpg''" example_log_env None "''/img/my file.jpg''"
      "\<lparr>FileName = ''my file.jpg'',
             FileURL = ''https://acme.vtexassets.com/arquivos/my%20file.jpg'',
             Success = True, Error = None\<rparr>"]
  by (simp add: example_upload)

section \<open>The audit entry of an upload\<close>

text \<open>
  Claim C4, as stated: every call of \<open>UploadFile\<close> of the FilePicker client records one
  entry before it returns. It does not hold for a call that fails before the upload
  request: here the path does not exist, the call fails in validation and the log file,
  which could be written, is still absent afterwards.
\<close>

theorem CMS_UploadFile_no_entry_counterexample:
  "CMS_UploadFile (NewCMSFilePickerClient ''acme'' ''master'')
      ((example_env ''logo.png'')\<lparr>os_Stat := (\<lambda>p. ErrNotExist)\<rparr>) example_log_env None
      ''/img/logo.png''
   = ((Some \<lparr>FileName = ''logo.png'', FileURL = [], Success = False,
             Error = Some (FileDoesNotExist ''/img/logo.png'')\<rparr>,
       Some (FileDoesNotExist ''/img/logo.png'')), None)"
  by (simp add: CMS_UploadFile_def example_defs)

text \<open>The same call on a path that exists is logged.\<close>

lemma example_logged_upload:
  "CMS_UploadFile (NewCMSFilePickerClient ''acme'' ''master'') (example_env ''logo.png'')
      example_log_env None ''/img/logo.png''
   = ((Some \<lparr>FileName = ''logo.png'',
             FileURL = ''https://acme.vtexassets.com/arquivos/logo.png'',
             Success = True, Error = None\<rparr>, None), Some (example_line @ [newline]))"
  by (simp add: CMS_UploadFile_def example_defs)

text \<open>
  Claim C4, amended: a call of \<open>UploadFile\<close> of the FilePicker client that reaches the
  upload request (validation, the request token, opening the file, its \<open>Stat\<close> and the
  multipart body all succeeded) hands exactly one entry to \<open>LogUpload\<close> before it
  returns, with status \<open>success\<close> when the result is a success and \<open>failed\<close> when it
  is a failure; a call that fails before the upload request returns a failure and leaves
  the log as it was.
\<close>

theorem CMS_UploadFile_log_entry:
  "if cms_reaches_upload c env p
   then (\<exists>c' sz r. getRequestToken c env = Inr c' \<and> file_Stat env p = Inr sz
          \<and> fst (fst (CMS_UploadFile c env lenv lf p)) = Some r
          \<and> snd (CMS_UploadFile c env lenv lf p)
              = snd (LogUpload lenv
                      (upload_entry ''cms'' (account c) (workspace c) env p sz
                         (uploadFilePicker c' env)) lf)
          \<and> Status (upload_entry ''cms'' (account c) (workspace c) env p sz
                       (uploadFilePicker c' env))
              = (if Success r then ''success'' else ''failed''))
   else (\<exists>r. fst (fst (CMS_UploadFile c env lenv lf p)) = Some r \<and> \<not> Success r)
        \<and> snd (CMS_UploadFile c env lenv lf p) = lf"
proof (cases "cms_reaches_upload c env p")
  case True
  from CMS_UploadFile_late [OF True, of lenv lf] obtain c' sz where
    tok: "getRequestToken c env = Inr c'" and info: "file_Stat env p = Inr sz" and
    eq: "CMS_UploadFile c env lenv lf p =
      (case uploadFilePicker c' env of
         Inl err \<Rightarrow>
           ((Some \<lparr>FileName = Base p, FileURL = [], Success = False, Error = Some err\<rparr>, Some err),
            snd (LogUpload lenv (upload_entry ''cms'' (account c) (workspace c) env p sz (Inl err)) lf))
       | Inr url \<Rightarrow>
           ((Some \<lparr>FileName = Base p, FileURL = url, Success = True, Error = None\<rparr>, None),
            snd (LogUpload lenv (upload_entry ''cms'' (account c) (workspace c) env p sz (Inr url)) lf)))"
    by blast
  have "\<exists>r. fst (fst (CMS_UploadFile c env lenv lf p)) = Some r
          \<and> snd (CMS_UploadFile c env lenv lf p)
              = snd (LogUpload lenv
                      (upload_entry ''cms'' (account c) (workspace c) env p sz
                         (uploadFilePicker c' env)) lf)
          \<and> Status (upload_entry ''cms'' (account c) (workspace c) env p sz
                       (uploadFilePicker c' env))
              = (if Success r then ''success'' else ''failed'')"
    by (cases "uploadFilePicker c' env") (simp_all add: eq upload_entry_def)
  with True tok info show ?thesis by auto
next
  case False
  from CMS_UploadFile_early [OF False] show ?thesis
    using False by (auto simp: return_error_def)
qed

section \<open>Properties of discovery\<close>

text \<open>
  Claim C3 says that discovery returns the files whose lower-cased extension is
  supported, so that a file named \<open>a.PNG\<close> is included. \<open>findImageFiles\<close> looks the
  extension up as \<open>filepath.Ext\<close> returns it, without \<open>strings.ToLower\<close>: in the
  directory below, \<open>a.PNG\<close> and \<open>sub/c.JPG\<close> are skipped in both modes and only
  \<open>b.png\<close> is returned, although the validator, which lower-cases the extension,
  accepts \<open>/img/a.PNG\<close>.
\<close>

theorem findImageFiles_skips_upper_case_extension:
  "findImageFiles (\<lambda>dir name. dir @ ''/'' @ name) ''/img''
      (Inr (Dir_node [(''a.PNG'', File_node), (''b.png'', File_node),
                      (''sub'', Dir_node [(''c.JPG'', File_node)])])) False
     = Inr [''/img/b.png'']
   \<and> findImageFiles (\<lambda>dir name. dir @ ''/'' @ name) ''/img''
      (Inr (Dir_node [(''a.PNG'', File_node), (''b.png'', File_node),
                      (''sub'', Dir_node [(''c.JPG'', File_node)])])) True
     = Inr [''/img/b.png'']
   \<and> ValidateFile ul (\<lambda>p. FileInfo False 10240) ''/img/a.PNG'' = None"
  by (simp add: findImageFiles_def ValidExtensions_def Ext_def IsPathSeparator_def
        ValidateFile_def MaxFileSize_def ToLower_def isASCII_def lower_byte_def)

section \<open>Properties of the audit log\<close>

text \<open>
  How the scanner cuts the file into lines, and what \<open>ReadLogs\<close> returns when every
  line is shorter than the scanner's buffer: the entries of the lines that parse, in the
  order of the file, and no error. A file that does not exist reads as no entries and no
  error. The last lemma is the file with two well-formed lines and one malformed line
  between them.
\<close>

lemma split_lines_line:
  "newline \<notin> set l \<Longrightarrow> split_lines (l @ newline # rest) = l # split_lines rest"
  by (induction l) auto



lemma split_lines_single: "newline \<notin> set data \<Longrightarrow> split_lines (data @ [newline]) = [data]"
  using split_lines_line [of data "[]"] by simp



lemma scan_loop_short_lines:
  "list_all (\<lambda>l. length l < MaxScanTokenSize) ls \<Longrightarrow>
   scan_loop um ls acc = (acc @ List.map_filter um (map dropCR ls), None)"
  by (induction ls arbitrary: acc) (auto simp: List.map_filter_def split: option.splits)

lemma ReadLogs_no_file: "ReadLogs renv None = ([], None)"
  by (simp add: ReadLogs_def)

lemma ReadLogs_short_lines:
  assumes "os_Open_log renv = None"
    and "list_all (\<lambda>l. length l < MaxScanTokenSize) (split_lines content)"
  shows "ReadLogs renv (Some content)
           = (List.map_filter (json_Unmarshal renv) (map dropCR (split_lines content)), None)"
  using assms by (simp add: ReadLogs_def scan_loop_short_lines)

lemma newline_not_in_example_line: "newline \<notin> set example_line"
  by (simp add: example_line_def newline_def)

lemma dropCR_example_line: "dropCR example_line = example_line"
  by (simp add: example_line_def dropCR_def)

lemma length_example_line: "length example_line < MaxScanTokenSize"
  by (simp add: example_line_def MaxScanTokenSize_def)

lemma split_lines_three:
  "newline \<notin> set a \<Longrightarrow> newline \<notin> set b \<Longrightarrow> newline \<notin> set c \<Longrightarrow>
   split_lines (a @ [newline] @ b @ [newline] @ c @ [newline]) = [a, b, c]"
  by (simp add: split_lines_line split_lines_single)

lemma ReadLogs_one_malformed_line:
  "ReadLogs example_read_env
     (Some (example_line @ [newline] @ ''not json'' @ [newline] @ ''{}'' @ [newline]))
   = ([example_entry, zero_entry], None)"
proof -
  have "split_lines (example_line @ [newline] @ ''not json'' @ [newline] @ ''{}'' @ [newline])
      = [example_line, ''not json'', ''{}'']"
    by (rule split_lines_three [OF newline_not_in_example_line]) (simp_all add: newline_def)
  moreover have "''not json'' \<noteq> example_line" "''{}'' \<noteq> example_line"
    "''not json'' \<noteq> raw_name_line" "''{}'' \<noteq> raw_name_line"
    by (simp_all add: example_line_def raw_name_line_def)
  moreover have "dropCR ''not json'' = ''not json''" "dropCR ''{}'' = ''{}''"
    by (simp_all add: dropCR_def)
  ultimately show ?thesis
    using length_example_line
    by (simp add: ReadLogs_def example_read_env_def dropCR_example_line MaxScanTokenSize_def)
qed

text \<open>
  Claim C8 says that \<open>ReadLogs\<close> returns the well-formed entries of every log file,
  skipping the lines that do not parse. A line of 64 KiB or more ends the scan instead:
  for a file whose first line holds 65536 bytes and whose second line is a well-formed
  entry, \<open>ReadLogs\<close> returns no entry and the scanner's error \<open>ErrTooLong\<close>.
\<close>

theorem ReadLogs_long_line_stops_scan:
  "ReadLogs example_read_env
     (Some (replicate 65536 (CHR ''x'') @ [newline] @ example_line @ [newline]))
   = ([], Some ErrTooLong)"
proof -
  have "newline \<notin> set (replicate 65536 (CHR ''x''))"
    by (simp add: newline_def)
  from split_lines_line [OF this, of "example_line @ [newline]"]
  show ?thesis
    by (simp add: ReadLogs_def example_read_env_def MaxScanTokenSize_def)
qed





section \<open>Properties of the scheduler\<close>

lemma getRequestToken_ignores_old_token:
  "getRequestToken (c\<lparr>requestToken := t\<rparr>) env = getRequestToken c env"
  by (simp add: getRequestToken_def Let_def split: http_result.splits)

lemma CMS_UploadFile_ignores_old_token:
  "CMS_UploadFile (c\<lparr>requestToken := t\<rparr>) env lenv lf p = CMS_UploadFile c env lenv lf p"
  unfolding CMS_UploadFile_def getRequestToken_ignores_old_token by (rule refl)



















text \<open>Without workers the scheduler returns at once, with no result.\<close>

lemma scheduler_without_workers:
  "\<exists>s. (step uf)\<^sup>*\<^sup>* (init_sched [f] 0 w) s \<and> returned s \<and> results s = []"
proof -
  let ?s0 = "init_sched [f] 0 w"
  let ?s1 = "?s0\<lparr>to_send := [], fileChan := fileChan ?s0 @ [f]\<rparr>"
  let ?s2 = "?s1\<lparr>chan_closed := True\<rparr>"
  have "step uf ?s0 ?s1"
    by (rule step.send) (simp add: init_sched_def)
  moreover have "step uf ?s1 ?s2"
    by (rule step.close_chan) (simp_all add: init_sched_def)
  ultimately have "(step uf)\<^sup>*\<^sup>* ?s0 ?s2"
    by (meson rtranclp.rtrancl_into_rtrancl rtranclp.rtrancl_refl)
  moreover have "returned ?s2 \<and> results ?s2 = []"
    by (simp add: returned_def init_sched_def)
  ultimately show ?thesis by blast
qed



end
